theory Spec2Isabelle
  imports Main
begin

section \<open>The Result type of src/index.ts\<close>

text \<open>
  The source declares a discriminated union of two object types,
  \<^verbatim>\<open>{ success: true; value: T } | { success: false; value: E }\<close>.
  Each variant is a constructor carrying its \<^verbatim>\<open>value\<close> field. The \<^verbatim>\<open>success\<close>
  field has a literal type in each variant, so reading it is a function of the variant.
  The \<^verbatim>\<open>value\<close> field has type \<^verbatim>\<open>T\<close> in the first variant and \<^verbatim>\<open>E\<close> in the second:
  \<open>value_T\<close> is the read after narrowing to the first variant, \<open>value_E\<close> the read after
  narrowing to the second.
\<close>

datatype ('t, 'e) result =
    SuccessTrue (value_T: 't)
  | SuccessFalse (value_E: 'e)

fun success :: "('t, 'e) result \<Rightarrow> bool" where
  "success (SuccessTrue _) = True"
| "success (SuccessFalse _) = False"

text \<open>
  \<^verbatim>\<open>ok = <T>(value: T): Result<T> => ({ success: true, value })\<close>.
  The error type of the returned result is the default, \<^verbatim>\<open>string\<close>.
\<close>

definition ok :: "'t \<Rightarrow> ('t, string) result" where
  "ok v = SuccessTrue v"

text \<open>
  \<^verbatim>\<open>err = <E extends string>(value: E): Result<never, E> => ({ success: false, value })\<close>.
  The argument is bounded by \<^verbatim>\<open>string\<close>; the success type \<^verbatim>\<open>never\<close> is assignable to
  every type, hence the free type variable.
\<close>

definition err :: "string \<Rightarrow> ('t, string) result" where
  "err v = SuccessFalse v"

text \<open>\<^verbatim>\<open>isOk = (result) => result.success\<close> and \<^verbatim>\<open>isErr = (result) => !result.success\<close>.\<close>

definition isOk :: "('t, 'e) result \<Rightarrow> bool" where
  "isOk r = success r"

definition isErr :: "('t, 'e) result \<Rightarrow> bool" where
  "isErr r = (\<not> success r)"

section \<open>The lookup of src/index.test.ts\<close>

text \<open>
  \<^verbatim>\<open>const findUser = (id: number) => {
    if (id === 1) return ok({ id: 1, name: "John" });
    return err("User not found");
  }\<close>
  The object literal is a record with the two fields \<^verbatim>\<open>id\<close> and \<^verbatim>\<open>name\<close>; the first is
  written \<open>id'\<close> since \<open>id\<close> is the identity function of HOL. The argument is read at
  integer values.
\<close>

record user =
  id' :: int
  name :: string

definition findUser :: "int \<Rightarrow> (user, string) result" where
  "findUser i = (if i = 1 then ok \<lparr>id' = 1, name = ''John''\<rparr> else err ''User not found'')"

section \<open>Reading the discriminant of a constructed result\<close>

lemma success_ok: "success (ok v)"
  by (simp add: ok_def)

lemma success_err: "\<not> success (err v)"
  by (simp add: err_def)

section \<open>Properties\<close>

text \<open>
  C1. For every result \<open>r\<close>, of any payload types, \<open>isOk r\<close> and \<open>isErr r\<close> are opposite
  booleans: they differ, and \<open>isErr r\<close> is the negation of \<open>isOk r\<close>. There is no third
  state.
\<close>

theorem isOk_isErr_complement:
  "isOk r \<noteq> isErr r \<and> isErr r = (\<not> isOk r)"
proof (cases r)
  case (SuccessTrue v)
  then show ?thesis by (simp add: isOk_def isErr_def)
next
  case (SuccessFalse e)
  then show ?thesis by (simp add: isOk_def isErr_def)
qed

text \<open>
  C2. For every value \<open>v\<close>, the result built by \<open>ok\<close> is a success for both predicates:
  \<open>isOk (ok v)\<close> is true and \<open>isErr (ok v)\<close> is false.
\<close>

theorem ok_is_success:
  "isOk (ok v) = True \<and> isErr (ok v) = False"
  by (simp add: isOk_def isErr_def success_ok)

text \<open>
  C3. For every string \<open>v\<close>, the result built by \<open>err\<close> is a failure for both predicates:
  \<open>isErr (err v)\<close> is true and \<open>isOk (err v)\<close> is false.
\<close>

theorem err_is_failure:
  "isErr (err v) = True \<and> isOk (err v) = False"
proof
  show "isErr (err v) = True"
    by (simp add: isErr_def success_err)
next
  show "isOk (err v) = False"
    by (simp add: isOk_def success_err)
qed

text \<open>
  C4. Round trip through the constructors: \<open>ok v\<close> takes the success branch and its
  value field, read there, is \<open>v\<close>; \<open>err e\<close> takes the failure branch and its value
  field, read there, is \<open>e\<close>.
\<close>

theorem constructors_round_trip:
  "isOk (ok v) \<and> value_T (ok v) = v \<and> isErr (err e) \<and> value_E (err e) = e"
  by (simp add: isOk_def isErr_def ok_def err_def)

text \<open>
  C7. The lookup \<open>findUser\<close> returns, for 1, a result for which \<open>isOk\<close> holds and whose
  value has the name John; for 999, a result for which \<open>isErr\<close> holds and whose value
  is the message "User not found".
\<close>

theorem findUser_scenario:
  "isOk (findUser 1) \<and> name (value_T (findUser 1)) = ''John''
   \<and> isErr (findUser 999) \<and> value_E (findUser 999) = ''User not found''"
proof -
  have found: "findUser 1 = ok \<lparr>id' = 1, name = ''John''\<rparr>"
    by (simp add: findUser_def)
  have missing: "findUser 999 = err ''User not found''"
    by (simp add: findUser_def)
  show ?thesis
    unfolding found missing
    by (simp add: isOk_def isErr_def ok_def err_def)
qed

text \<open>
  C8. Filtering the list \<open>[ok 1, err x, ok 3]\<close> by \<open>isOk\<close> and reading the value of
  each element that is left gives the list \<open>[1, 3]\<close>: the failure is removed and the
  successes keep their order.
\<close>

theorem filter_isOk_scenario:
  "map value_T (filter isOk [ok 1, err ''x'', ok 3]) = [1, 3 :: int]"
  by (simp add: isOk_def ok_def err_def)

text \<open>
  C9. The two constructors have disjoint ranges: for every value \<open>v\<close> and every error
  \<open>e\<close>, \<open>ok v\<close> differs from \<open>err e\<close>, whatever the payloads, since the \<^verbatim>\<open>success\<close>
  field of the first is true and that of the second is false.
\<close>

theorem ok_neq_err:
  "ok v \<noteq> err e"
proof
  assume same: "ok v = err e"
  have "success (ok v)"
    by (rule success_ok)
  with same have "success (err e :: ('a, string) result)"
    by simp
  with success_err show False
    by blast
qed

text \<open>
  C10. The predicates depend on the discriminant only: two results with the same
  \<^verbatim>\<open>success\<close> field, of any payloads and payload types, get the same answer from \<open>isOk\<close>
  and the same answer from \<open>isErr\<close>.
\<close>

theorem predicates_ignore_payload:
  fixes r1 :: "('a, 'b) result" and r2 :: "('c, 'd) result"
  assumes "success r1 = success r2"
  shows "isOk r1 = isOk r2 \<and> isErr r1 = isErr r2"
  unfolding isOk_def isErr_def using assms by simp

theorem predicates_ignore_payload_witness:
  "success (ok (1 :: int)) = success (ok ''John'')
   \<and> isOk (ok (1 :: int)) = isOk (ok ''John'')
   \<and> isErr (ok (1 :: int)) = isErr (ok ''John'')"
  using predicates_ignore_payload [of "ok (1 :: int)" "ok ''John''"]
  by (simp add: success_ok)

end
